theory Spec2Isabelle
  imports Main "HOL-Library.Word" "HOL-Library.AList"
begin

section \<open>JavaScript strings\<close>

text \<open>
  A JavaScript string is a sequence of UTF-16 code units; \<open>length\<close>, \<open>===\<close>, the regular
  expression \<open>.\<close> (without the \<open>u\<close> and \<open>s\<close> flags) and \<open>trim\<close> all work on code units.
  \<open>undefined\<close> is \<open>None\<close>; a string is truthy when it is not empty.
\<close>

type_synonym code_unit = "16 word"
type_synonym jsstring = "code_unit list"

definition js :: "string \<Rightarrow> jsstring" where
  "js s = map of_char s"

definition truthy :: "jsstring option \<Rightarrow> bool" where
  "truthy t = (case t of None \<Rightarrow> False | Some s \<Rightarrow> s \<noteq> [])"

text \<open>ECMAScript LineTerminator: LF, CR, LS, PS. The regular expression \<open>.\<close> matches every
  code unit but these.\<close>

definition isLineTerminator :: "code_unit \<Rightarrow> bool" where
  "isLineTerminator c \<longleftrightarrow> c = 0x000A \<or> c = 0x000D \<or> c = 0x2028 \<or> c = 0x2029"

text \<open>\<open>String.prototype.trim\<close> strips WhiteSpace and LineTerminator code units from both ends.\<close>

definition isTrimmed :: "code_unit \<Rightarrow> bool" where
  "isTrimmed c \<longleftrightarrow>
     c = 0x0009 \<or> c = 0x000A \<or> c = 0x000B \<or> c = 0x000C \<or> c = 0x000D \<or> c = 0x0020 \<or>
     c = 0x00A0 \<or> c = 0x1680 \<or> (0x2000 \<le> c \<and> c \<le> 0x200A) \<or> c = 0x2028 \<or> c = 0x2029 \<or>
     c = 0x202F \<or> c = 0x205F \<or> c = 0x3000 \<or> c = 0xFEFF"

definition trim :: "jsstring \<Rightarrow> jsstring" where
  "trim s = rev (dropWhile isTrimmed (rev (dropWhile isTrimmed s)))"

definition startsWith :: "jsstring \<Rightarrow> jsstring \<Rightarrow> bool" where
  "startsWith s p \<longleftrightarrow> take (length p) s = p"

text \<open>\<open>s.replaceAll(tok, "")\<close> for a non-empty search string: occurrences are found from the
  left and do not overlap.\<close>

function replaceAllEmpty :: "jsstring \<Rightarrow> jsstring \<Rightarrow> jsstring" where
  "replaceAllEmpty tok [] = []"
| "replaceAllEmpty tok (c # cs) =
     (if tok \<noteq> [] \<and> startsWith (c # cs) tok
      then replaceAllEmpty tok (drop (length tok) (c # cs))
      else c # replaceAllEmpty tok cs)"
  by pat_completeness auto
termination
  by (relation "measure (\<lambda>(tok, s). length s)") auto


section \<open>Heartbeat token\<close>

definition HEARTBEAT_TOKEN :: jsstring where
  "HEARTBEAT_TOKEN = js ''HEARTBEAT_OK''"

definition HEARTBEAT_PROMPT :: jsstring where
  "HEARTBEAT_PROMPT = js ''HEARTBEAT ultrathink''"

record stripped =
  shouldSkip :: bool
  strippedText :: jsstring

definition stripHeartbeatToken :: "jsstring option \<Rightarrow> stripped" where
  "stripHeartbeatToken raw =
     (if \<not> truthy raw then \<lparr>shouldSkip = True, strippedText = []\<rparr>
      else
        let trimmed = trim (the raw) in
        if trimmed = [] then \<lparr>shouldSkip = True, strippedText = []\<rparr>
        else if trimmed = HEARTBEAT_TOKEN then \<lparr>shouldSkip = True, strippedText = []\<rparr>
        else
          let withoutToken = trim (replaceAllEmpty HEARTBEAT_TOKEN trimmed) in
          \<lparr>shouldSkip = (length withoutToken = 0),
           strippedText = (if withoutToken \<noteq> [] then withoutToken else trimmed)\<rparr>)"

section \<open>Reply payloads and text chunks\<close>

definition WEB_TEXT_LIMIT :: nat where
  "WEB_TEXT_LIMIT = 4000"

record reply_payload =
  payloadText :: "jsstring option"
  mediaUrl :: "jsstring option"
  mediaUrls :: "jsstring list option"

text \<open>\<open>text.match(new RegExp(`.{1,${WEB_TEXT_LIMIT}}`, "g")) ?? []\<close>: at each position the
  greedy match takes as many code units as it can, up to the limit, stopping before a line
  terminator; where no code unit can be matched the search moves one position on.\<close>

definition dotRun :: "jsstring \<Rightarrow> jsstring" where
  "dotRun s = take WEB_TEXT_LIMIT (takeWhile (\<lambda>x. \<not> isLineTerminator x) s)"

function matchChunks :: "jsstring \<Rightarrow> jsstring list" where
  "matchChunks [] = []"
| "matchChunks (c # cs) =
     (if isLineTerminator c then matchChunks cs
      else dotRun (c # cs) # matchChunks (drop (length (dotRun (c # cs))) (c # cs)))"
  by pat_completeness auto
termination
  by (relation "measure length") (auto simp: dotRun_def WEB_TEXT_LIMIT_def)

definition textChunks :: "jsstring option \<Rightarrow> jsstring list" where
  "textChunks t = (case t of None \<Rightarrow> [] | Some s \<Rightarrow> if length s > 0 then matchChunks s else [])"

definition mediaList :: "reply_payload \<Rightarrow> jsstring list" where
  "mediaList p =
     (case mediaUrls p of
        Some (u # us) \<Rightarrow> u # us
      | _ \<Rightarrow> (if truthy (mediaUrl p) then [the (mediaUrl p)] else []))"

section \<open>Messages, requests and effects\<close>

datatype media_kind = KindImage | KindAudio | KindVideo | KindDocument

record inbound_msg =
  msgFrom :: jsstring
  msgTo :: jsstring
  body :: jsstring
  timestamp :: "int option"
  msgId :: "jsstring option"
  mediaPath :: "jsstring option"
  msgMediaUrl :: "jsstring option"
  mediaType :: "jsstring option"

record request =
  Body :: jsstring
  From :: jsstring
  To :: jsstring
  MessageSid :: "jsstring option"
  MediaPath :: "jsstring option"
  MediaUrl :: "jsstring option"
  MediaType :: "jsstring option"

text \<open>What the connector does to the outside world, in the order it does it. Informational
  logging of successful sends is not recorded; the skip and failure notices are.\<close>

datatype skip_reason =
    RequestsInFlight | NoRecentInbound | NoSessionForFallback | EmptyReply | HeartbeatTokenReply

datatype effect =
    Reply jsstring
  | SendMedia jsstring media_kind "jsstring option"
  | MediaFailed jsstring
  | MediaSkipped
  | Invoke request
  | Sent jsstring jsstring
  | EchoSkipped
  | DeliveryFailed
  | HeartbeatSkipped skip_reason
  | HeartbeatFailed
  | DryRun jsstring

text \<open>The channel transport is an external collaborator: loading a media item may throw
  (\<open>None\<close>), and so may \<open>msg.sendMedia\<close> and \<open>msg.reply\<close>.\<close>

record transport =
  loadWebMedia :: "jsstring \<Rightarrow> media_kind option"
  sendMediaThrows :: "jsstring \<Rightarrow> bool"
  replyThrows :: "jsstring \<Rightarrow> bool"
  senderThrows :: "jsstring \<Rightarrow> jsstring \<Rightarrow> bool"

section \<open>Outbound delivery (\<open>deliverWebReply\<close>)\<close>

text \<open>\<open>for (const chunk of chunks) await msg.reply(chunk)\<close>; the flag is True when a
  reply threw, which ends the loop and the delivery.\<close>

fun replyEach :: "transport \<Rightarrow> jsstring list \<Rightarrow> effect list \<times> bool" where
  "replyEach tr [] = ([], False)"
| "replyEach tr (chunk # rest) =
     (if replyThrows tr chunk then ([], True)
      else (let (es, threw) = replyEach tr rest in (Reply chunk # es, threw)))"

text \<open>\<open>index === 0 ? remainingText.shift() || undefined : undefined\<close>\<close>

definition shiftCaption :: "nat \<Rightarrow> jsstring list \<Rightarrow> jsstring option \<times> jsstring list" where
  "shiftCaption index remainingText =
     (if index = 0 then
        (case remainingText of
           [] \<Rightarrow> (None, [])
         | first # rest \<Rightarrow> (if first \<noteq> [] then Some first else None, rest))
      else (None, remainingText))"

text \<open>One pass of the media loop's \<open>try\<close> block: \<open>Inl\<close> is a throw (from \<open>loadWebMedia\<close>,
  before the caption is shifted, or from \<open>msg.sendMedia\<close>, after it), with the remaining
  text as the \<open>catch\<close> block finds it.\<close>

definition tryMedia ::
  "transport \<Rightarrow> nat \<Rightarrow> jsstring \<Rightarrow> jsstring list \<Rightarrow> jsstring list + (effect \<times> jsstring list)" where
  "tryMedia tr index url remainingText =
     (case loadWebMedia tr url of
        None \<Rightarrow> Inl remainingText
      | Some kind \<Rightarrow>
          (let (caption, remaining) = shiftCaption index remainingText in
           if sendMediaThrows tr url then Inl remaining
           else Inr (SendMedia url kind caption, remaining)))"

definition andThen ::
  "effect list \<Rightarrow> effect list \<times> jsstring list \<times> bool \<Rightarrow> effect list \<times> jsstring list \<times> bool" where
  "andThen es r = (case r of (es', remaining, threw) \<Rightarrow> (es @ es', remaining, threw))"

fun mediaLoop ::
  "transport \<Rightarrow> nat \<Rightarrow> jsstring list \<Rightarrow> jsstring list \<Rightarrow> effect list \<times> jsstring list \<times> bool" where
  "mediaLoop tr index [] remainingText = ([], remainingText, False)"
| "mediaLoop tr index (url # urls) remainingText =
     (case tryMedia tr index url remainingText of
        Inr (sent, remaining) \<Rightarrow> andThen [sent] (mediaLoop tr (Suc index) urls remaining)
      | Inl remaining \<Rightarrow>
          (case remaining of
             first # rest \<Rightarrow>
               (if index = 0 then
                  (if replyThrows tr first then ([MediaFailed url, MediaSkipped], rest, True)
                   else andThen [MediaFailed url, MediaSkipped, Reply first]
                          (mediaLoop tr (Suc index) urls rest))
                else andThen [MediaFailed url] (mediaLoop tr (Suc index) urls remaining))
           | [] \<Rightarrow> andThen [MediaFailed url] (mediaLoop tr (Suc index) urls remaining)))"

definition deliverWebReply :: "transport \<Rightarrow> reply_payload \<Rightarrow> effect list \<times> bool" where
  "deliverWebReply tr replyResult =
     (let chunks = textChunks (payloadText replyResult);
          media = mediaList replyResult
      in if length media = 0 \<and> chunks \<noteq> [] then replyEach tr chunks
         else
           (case mediaLoop tr 0 media chunks of
              (es, remainingText, threw) \<Rightarrow>
                if threw then (es, True)
                else (let (es', threw') = replyEach tr remainingText in (es @ es', threw'))))"

section \<open>Configuration and collaborators\<close>

text \<open>The fields of the loaded configuration that the connector reads (\<open>cfg.inbound\<close> and,
  under it, \<open>reply\<close> and \<open>reply.session\<close>); an absent field is \<open>None\<close>. Minutes and
  milliseconds are integers.\<close>

record config =
  scope :: "jsstring option"
  idleMinutes :: "int option"
  heartbeatIdleMinutes :: "int option"
  heartbeatMinutes :: "int option"
  replyMode :: "jsstring option"
  allowFrom :: "jsstring list option"
  messagePrefix :: "jsstring option"
  responsePrefix :: "jsstring option"

record session_entry =
  sessionId :: jsstring
  updatedAt :: int

text \<open>The session store is a JSON object: its keys in insertion order, as \<open>Object.entries\<close>
  lists them. \<open>store[k]\<close> is \<open>map_of store k\<close>, \<open>store[k] = v\<close> is \<open>AList.update k v store\<close>.\<close>

type_synonym session_store = "(jsstring \<times> session_entry) list"

datatype resolved =
    ResolverThrew
  | NoReply
  | OneReply reply_payload
  | ManyReplies "reply_payload list"

text \<open>Everything the connector imports but this repository's sources do not define is a
  field of the environment: the reply resolver (the agent invocation, which reads and writes
  the session store), the channel transport, \<open>deriveSessionKey\<close>, \<open>normalizeE164\<close>, the
  timestamp formatting of \<open>formatTimestamp\<close> (which reads the clock and the locale), and
  the constant \<open>DEFAULT_IDLE_MINUTES\<close>.\<close>

record env =
  cfg :: config
  replyResolver :: "request \<Rightarrow> session_store \<Rightarrow> resolved \<times> session_store"
  channel :: transport
  deriveSessionKey :: "jsstring \<Rightarrow> jsstring \<Rightarrow> jsstring"
  normalizeE164 :: "jsstring \<Rightarrow> jsstring"
  formatTimestamp :: "int option \<Rightarrow> jsstring"
  DEFAULT_IDLE_MINUTES :: int
  tuningReplyHeartbeatMinutes :: "int option"

definition DEFAULT_REPLY_HEARTBEAT_MINUTES :: int where
  "DEFAULT_REPLY_HEARTBEAT_MINUTES = 30"

definition resolveReplyHeartbeatMinutes :: "config \<Rightarrow> int option \<Rightarrow> int option" where
  "resolveReplyHeartbeatMinutes c overrideMinutes =
     (let raw = (case overrideMinutes of Some m \<Rightarrow> Some m | None \<Rightarrow> heartbeatMinutes c) in
      if raw = Some 0 then None
      else if raw \<noteq> None \<and> the raw > 0 then raw
      else if replyMode c = Some (js ''command'') then Some DEFAULT_REPLY_HEARTBEAT_MINUTES
      else None)"

section \<open>Session snapshots (\<open>getSessionSnapshot\<close>)\<close>

record snapshot =
  key :: jsstring
  entry :: "session_entry option"
  fresh :: bool
  snapshotIdleMinutes :: int

definition effectiveIdleMinutes :: "env \<Rightarrow> bool \<Rightarrow> int" where
  "effectiveIdleMinutes e isHeartbeat =
     max (case (if isHeartbeat
                then (case heartbeatIdleMinutes (cfg e) of Some h \<Rightarrow> Some h
                      | None \<Rightarrow> idleMinutes (cfg e))
                else idleMinutes (cfg e)) of
            Some m \<Rightarrow> m
          | None \<Rightarrow> DEFAULT_IDLE_MINUTES e)
         1"

definition getSessionSnapshot :: "env \<Rightarrow> int \<Rightarrow> jsstring \<Rightarrow> bool \<Rightarrow> session_store \<Rightarrow> snapshot" where
  "getSessionSnapshot e now sender isHeartbeat store =
     (let sessionScope = (case scope (cfg e) of Some s \<Rightarrow> s | None \<Rightarrow> js ''per-sender'');
          k = deriveSessionKey e sessionScope sender;
          ent = map_of store k;
          idle = effectiveIdleMinutes e isHeartbeat
      in \<lparr>key = k, entry = ent,
          fresh = (case ent of None \<Rightarrow> False | Some en \<Rightarrow> now - updatedAt en \<le> idle * 60000),
          snapshotIdleMinutes = idle\<rparr>)"

section \<open>Connector state\<close>

record pending_batch =
  messages :: "inbound_msg list"
  timer :: bool

text \<open>\<open>recentlySent\<close> is a JavaScript \<open>Set\<close>: its elements in insertion order, without
  duplicates. \<open>effects\<close> is the trace of what the connector has done, oldest first.

  The connector runs on one thread. Each callback below is a function from the state before
  to the state after; the clock reading and the queue size it sees are arguments. A callback
  that awaits the resolver or the transport is modelled as running to its end: what other
  callbacks do while it is suspended is not interleaved with it.\<close>

text \<open>Loading and saving the session store are taken to succeed: the store is a field of
  the state, read and written in place.\<close>

record connector =
  store :: session_store
  recentlySent :: "jsstring list"
  pendingBatches :: "jsstring \<rightharpoonup> pending_batch"
  lastInboundMsg :: "inbound_msg option"
  handledMessages :: nat
  lastMessageAt :: "int option"
  effects :: "effect list"

datatype outcome = Returned | Threw

definition emit :: "effect list \<Rightarrow> connector \<Rightarrow> connector" where
  "emit es w = w\<lparr>effects := effects w @ es\<rparr>"

section \<open>Echo guard\<close>

definition MAX_RECENT_MESSAGES :: nat where
  "MAX_RECENT_MESSAGES = 100"

definition setAdd :: "jsstring \<Rightarrow> jsstring list \<Rightarrow> jsstring list" where
  "setAdd x xs = (if x \<in> set xs then xs else xs @ [x])"

definition setDelete :: "jsstring \<Rightarrow> jsstring list \<Rightarrow> jsstring list" where
  "setDelete x xs = removeAll x xs"

text \<open>\<open>if (recentlySent.size > MAX_RECENT_MESSAGES) { const firstKey =
  recentlySent.values().next().value; if (firstKey) recentlySent.delete(firstKey); }\<close>\<close>

definition evictOldest :: "jsstring list \<Rightarrow> jsstring list" where
  "evictOldest xs =
     (if length xs > MAX_RECENT_MESSAGES then
        (case xs of
           [] \<Rightarrow> xs
         | firstKey # rest \<Rightarrow> (if firstKey \<noteq> [] then setDelete firstKey xs else xs))
      else xs)"

text \<open>The registration in \<open>processBatch\<close> after a delivery that did not throw: the reply
  text and the combined batch body are both added, then one eviction is tried.\<close>

definition rememberReply :: "jsstring \<Rightarrow> jsstring \<Rightarrow> jsstring list \<Rightarrow> jsstring list" where
  "rememberReply replyText combinedBody xs = evictOldest (setAdd combinedBody (setAdd replyText xs))"

text \<open>The registration in the IPC send callback.\<close>

definition rememberIpc :: "jsstring \<Rightarrow> jsstring list \<Rightarrow> jsstring list" where
  "rememberIpc message xs = (if message \<noteq> [] then evictOldest (setAdd message xs) else xs)"


section \<open>Inbound batcher\<close>













section \<open>Heartbeats\<close>

record heartbeat_opts =
  optTo :: jsstring
  optSessionId :: "jsstring option"
  overrideBody :: "jsstring option"
  dryRun :: bool

definition heartbeatRequest :: "jsstring \<Rightarrow> jsstring \<Rightarrow> jsstring option \<Rightarrow> request" where
  "heartbeatRequest sender recipient sid =
     \<lparr>Body = HEARTBEAT_PROMPT, From = sender, To = recipient, MessageSid = sid,
      MediaPath = None, MediaUrl = None, MediaType = None\<rparr>"

definition hasMedia :: "reply_payload \<Rightarrow> bool" where
  "hasMedia p \<longleftrightarrow> truthy (mediaUrl p) \<or> (case mediaUrls p of Some us \<Rightarrow> length us > 0 | None \<Rightarrow> False)"

text \<open>\<open>!replyResult || (!replyResult.text && !replyResult.mediaUrl &&
  !replyResult.mediaUrls?.length)\<close>; an array has none of the three properties.\<close>

definition isEmptyReply :: "resolved \<Rightarrow> bool" where
  "isEmptyReply r =
     (case r of
        OneReply p \<Rightarrow> \<not> truthy (payloadText p) \<and> \<not> hasMedia p
      | _ \<Rightarrow> True)"

text \<open>The write-back of \<open>runWebHeartbeatOnce\<close>: the store is loaded again and, when the
  snapshot had an entry and the store has one under the snapshot's key, that entry's
  \<open>updatedAt\<close> is set to the snapshot's.\<close>

definition restoreUpdatedAt :: "snapshot \<Rightarrow> session_store \<Rightarrow> session_store" where
  "restoreUpdatedAt snap st =
     (case (entry snap, map_of st (key snap)) of
        (Some previous, Some current) \<Rightarrow>
          AList.update (key snap) (current\<lparr>updatedAt := updatedAt previous\<rparr>) st
      | _ \<Rightarrow> st)"

definition runWebHeartbeatOnce :: "env \<Rightarrow> int \<Rightarrow> heartbeat_opts \<Rightarrow> connector \<Rightarrow> outcome \<times> connector" where
  "runWebHeartbeatOnce e now opts w =
     (let to = optTo opts;
          w1 = (if truthy (optSessionId opts)
                then w\<lparr>store := AList.update to
                       \<lparr>sessionId = the (optSessionId opts), updatedAt = now\<rparr> (store w)\<rparr>
                else w);
          sessionSnapshot = getSessionSnapshot e now to True (store w1)
      in if truthy (overrideBody opts) \<and> length (trim (the (overrideBody opts))) = 0
         then (Threw, w1)
         else if truthy (overrideBody opts) then
           (if dryRun opts then (Returned, emit [DryRun (trim (the (overrideBody opts)))] w1)
            else if senderThrows (channel e) to (the (overrideBody opts))
            then (Threw, emit [HeartbeatFailed] w1)
            else (Returned, emit [Sent to (the (overrideBody opts))] w1))
         else
           let req = heartbeatRequest to to
                       (case optSessionId opts of
                          Some s \<Rightarrow> Some s
                        | None \<Rightarrow> map_option sessionId (entry sessionSnapshot));
               (replyResult, store') = replyResolver e req (store w1);
               w2 = emit [Invoke req] (w1\<lparr>store := store'\<rparr>)
           in (case replyResult of
                 ResolverThrew \<Rightarrow> (Threw, emit [HeartbeatFailed] w2)
               | OneReply p \<Rightarrow>
                   if isEmptyReply (OneReply p)
                   then (Returned, emit [HeartbeatSkipped EmptyReply] w2)
                   else
                     let stripped = stripHeartbeatToken (payloadText p)
                     in if shouldSkip stripped \<and> \<not> hasMedia p
                        then (Returned,
                              emit [HeartbeatSkipped HeartbeatTokenReply]
                                (w2\<lparr>store := restoreUpdatedAt sessionSnapshot (store w2)\<rparr>))
                        else
                          let finalText = (if strippedText stripped \<noteq> [] then strippedText stripped
                                           else if truthy (payloadText p) then the (payloadText p)
                                           else [])
                          in if dryRun opts then (Returned, emit [DryRun (take 200 finalText)] w2)
                             else if senderThrows (channel e) to finalText
                             then (Threw, emit [HeartbeatFailed] w2)
                             else (Returned, emit [Sent to finalText] w2)
               | _ \<Rightarrow> (Returned, emit [HeartbeatSkipped EmptyReply] w2)))"

text \<open>\<open>getFallbackRecipient\<close>: the most recently updated session other than \<open>global\<close>
  (\<open>Array.prototype.sort\<close> is stable, as \<open>sort_key\<close> is), or else the first entry of
  \<open>allowFrom\<close> that is not the wildcard. \<open>None\<close> is \<open>null\<close>.\<close>

definition getFallbackRecipient :: "env \<Rightarrow> session_store \<Rightarrow> jsstring option" where
  "getFallbackRecipient e st =
     (let candidates = filter (\<lambda>(k, en). k \<noteq> js ''global'') st in
      if length candidates = 0 then
        (let allowed = (case allowFrom (cfg e) of
                          Some l \<Rightarrow> (if length l > 0 then filter (\<lambda>v. v \<noteq> js ''*'') l else [])
                        | None \<Rightarrow> [])
         in case allowed of
              [] \<Rightarrow> None
            | first # rest \<Rightarrow> (if first \<noteq> [] then Some (normalizeE164 e first) else None))
      else
        (case sort_key (\<lambda>(k, en). - updatedAt en) candidates of
           [] \<Rightarrow> None
         | mostRecent # rest \<Rightarrow> Some (normalizeE164 e (fst mostRecent))))"

text \<open>One tick of the reply heartbeat, \<open>runReplyHeartbeat\<close>; \<open>queued\<close> is what
  \<open>getQueueSize()\<close> returns at the tick. The fallback branch calls \<open>runWebHeartbeatOnce\<close>
  outside any \<open>try\<close>; the branch for a known last inbound message catches every throw.\<close>

definition heartbeatReplyText :: "jsstring option \<Rightarrow> jsstring \<Rightarrow> jsstring" where
  "heartbeatReplyText rp finalText =
     (if truthy rp \<and> finalText \<noteq> [] \<and> \<not> startsWith finalText (the rp)
      then the rp @ js '' '' @ finalText else finalText)"

definition runReplyHeartbeat :: "env \<Rightarrow> int \<Rightarrow> nat \<Rightarrow> connector \<Rightarrow> outcome \<times> connector" where
  "runReplyHeartbeat e now queued w =
     (if queued > 0 then (Returned, emit [HeartbeatSkipped RequestsInFlight] w)
      else if resolveReplyHeartbeatMinutes (cfg e) (tuningReplyHeartbeatMinutes e) = None
      then (Returned, w)
      else
        (case lastInboundMsg w of
           None \<Rightarrow>
             (let fallbackTo = getFallbackRecipient e (store w) in
              if \<not> truthy fallbackTo then (Returned, emit [HeartbeatSkipped NoRecentInbound] w)
              else
                (case entry (getSessionSnapshot e now (the fallbackTo) True (store w)) of
                   None \<Rightarrow> (Returned, emit [HeartbeatSkipped NoSessionForFallback] w)
                 | Some en \<Rightarrow>
                     runWebHeartbeatOnce e now
                       \<lparr>optTo = the fallbackTo, optSessionId = Some (sessionId en),
                        overrideBody = None, dryRun = False\<rparr> w))
         | Some lastMsg \<Rightarrow>
             (let snap = getSessionSnapshot e now (msgFrom lastMsg) False (store w);
                  req = heartbeatRequest (msgFrom lastMsg) (msgTo lastMsg)
                          (map_option sessionId (entry snap));
                  (replyResult, store') = replyResolver e req (store w);
                  w2 = emit [Invoke req] (w\<lparr>store := store'\<rparr>)
              in (case replyResult of
                    ResolverThrew \<Rightarrow> (Returned, emit [HeartbeatFailed] w2)
                  | OneReply p \<Rightarrow>
                      if isEmptyReply (OneReply p)
                      then (Returned, emit [HeartbeatSkipped EmptyReply] w2)
                      else
                        let stripped = stripHeartbeatToken (payloadText p)
                        in if shouldSkip stripped \<and> \<not> hasMedia p
                           then (Returned, emit [HeartbeatSkipped HeartbeatTokenReply] w2)
                           else
                             let cleanedReply =
                                   p\<lparr>payloadText :=
                                       Some (heartbeatReplyText (responsePrefix (cfg e))
                                               (strippedText stripped))\<rparr>;
                                 (es, threw) = deliverWebReply (channel e) cleanedReply
                             in if threw then (Returned, emit (es @ [HeartbeatFailed]) w2)
                                else (Returned, emit es w2)
                  | _ \<Rightarrow> (Returned, emit [HeartbeatSkipped EmptyReply] w2)))))"

section \<open>Reconnect loop of \<open>monitorWebProvider\<close>\<close>

record reconnect_policy =
  maxAttempts :: int

record close_reason =
  status :: "int option"
  isLoggedOut :: bool

datatype race_result = Aborted | Closed close_reason

text \<open>What the environment does during one pass of the \<open>while (true)\<close> loop: whether a stop
  has been requested when the pass starts, whether the listener factory throws instead of
  connecting, how long the connection lived, what
  \<open>Promise.race([listener.onClose, abortPromise])\<close> resolved to, whether a stop is requested
  by then (\<open>stopRequested() || sigintStop\<close>), and whether the backoff sleep rejects.\<close>

record cycle =
  stopAtTop :: bool
  connectThrows :: bool
  uptimeMs :: int
  raceResult :: race_result
  stopAfterRace :: bool
  sleepRejects :: bool

datatype notice =
    LoggedOutNotice
  | MaxRetriesNotice "int option" int
  | RetryNotice "int option" nat int nat

datatype loop_event = Connect | Notice notice | CloseListener | Sleep nat

text \<open>\<open>Stopped\<close>: the loop was left. \<open>Failed\<close>: the listener factory threw, and
  \<open>monitorWebProvider\<close> with it. \<open>Waiting\<close>: the script of cycles is used up and the loop is
  still running.\<close>

datatype loop_end = Stopped | Failed | Waiting

definition followedBy :: "loop_event list \<Rightarrow> loop_event list \<times> loop_end \<Rightarrow> loop_event list \<times> loop_end" where
  "followedBy es r = (es @ fst r, snd r)"

text \<open>\<open>computeBackoff\<close> is imported from a module this repository's sources do not hold; it
  is a parameter. \<open>attempts\<close> is \<open>reconnectAttempts\<close> when the pass starts.\<close>

fun monitorLoop ::
  "reconnect_policy \<Rightarrow> (reconnect_policy \<Rightarrow> nat \<Rightarrow> nat) \<Rightarrow> bool \<Rightarrow> int \<Rightarrow> nat \<Rightarrow> cycle list
     \<Rightarrow> loop_event list \<times> loop_end" where
  "monitorLoop policy computeBackoff keepAlive heartbeatSeconds attempts [] = ([], Waiting)"
| "monitorLoop policy computeBackoff keepAlive heartbeatSeconds attempts (c # rest) =
     (if stopAtTop c then ([], Stopped)
      else if connectThrows c then ([Connect], Failed)
      else if \<not> keepAlive then ([Connect, CloseListener], Stopped)
      else
        let attempts1 = (if uptimeMs c > heartbeatSeconds * 1000 then 0 else attempts) in
        (case raceResult c of
           Aborted \<Rightarrow> ([Connect, CloseListener], Stopped)
         | Closed reason \<Rightarrow>
             if stopAfterRace c then ([Connect, CloseListener], Stopped)
             else if isLoggedOut reason
             then ([Connect, Notice LoggedOutNotice, CloseListener], Stopped)
             else
               let attempts2 = attempts1 + 1 in
               if maxAttempts policy > 0 \<and> int attempts2 \<ge> maxAttempts policy
               then ([Connect, Notice (MaxRetriesNotice (status reason) (maxAttempts policy)),
                      CloseListener], Stopped)
               else
                 let delay = computeBackoff policy attempts2;
                     es = [Connect,
                           Notice (RetryNotice (status reason) attempts2 (maxAttempts policy) delay),
                           CloseListener, Sleep delay]
                 in if sleepRejects c then (es, Stopped)
                    else followedBy es
                           (monitorLoop policy computeBackoff keepAlive heartbeatSeconds attempts2 rest)))"

definition transientCycle :: "cycle \<Rightarrow> bool" where
  "transientCycle c \<longleftrightarrow>
     (if stopAtTop c \<or> connectThrows c \<or> stopAfterRace c \<or> sleepRejects c then False
      else (case raceResult c of Aborted \<Rightarrow> False | Closed r \<Rightarrow> (if isLoggedOut r then False else True)))"

section \<open>Concrete inputs\<close>

text \<open>An environment and a connector state for the concrete runs below: every send
  succeeds, the session key of a sender is the sender, timestamps are not printed, and the resolver answers every prompt with the
  heartbeat token and leaves the store as it is.\<close>

definition quietTransport :: transport where
  "quietTransport =
     \<lparr>loadWebMedia = (\<lambda>u. Some KindImage), sendMediaThrows = (\<lambda>u. False),
      replyThrows = (\<lambda>t. False), senderThrows = (\<lambda>t m. False)\<rparr>"

definition plainConfig :: config where
  "plainConfig =
     \<lparr>scope = None, idleMinutes = None, heartbeatIdleMinutes = None, heartbeatMinutes = Some 30,
      replyMode = None, allowFrom = Some [js ''+15550001''], messagePrefix = None,
      responsePrefix = None\<rparr>"

definition tokenResolver :: "request \<Rightarrow> session_store \<Rightarrow> resolved \<times> session_store" where
  "tokenResolver req st =
     (OneReply \<lparr>payloadText = Some HEARTBEAT_TOKEN, mediaUrl = None, mediaUrls = None\<rparr>, st)"

definition plainEnv :: env where
  "plainEnv =
     \<lparr>cfg = plainConfig, replyResolver = tokenResolver, channel = quietTransport,
      deriveSessionKey = (\<lambda>sc sender. sender),
      normalizeE164 = (\<lambda>s. s), formatTimestamp = (\<lambda>ts. []), DEFAULT_IDLE_MINUTES = 60,
      tuningReplyHeartbeatMinutes = None\<rparr>"

definition helloMsg :: inbound_msg where
  "helloMsg =
     \<lparr>msgFrom = js ''+15550001'', msgTo = js ''+15550002'', body = js ''hello'',
      timestamp = None, msgId = None, mediaPath = None, msgMediaUrl = None, mediaType = None\<rparr>"

definition idleConnector :: connector where
  "idleConnector =
     \<lparr>store = [(js ''+15550001'', \<lparr>sessionId = js ''s1'', updatedAt = 1000\<rparr>)],
      recentlySent = [], pendingBatches = Map.empty, lastInboundMsg = None,
      handledMessages = 0, lastMessageAt = None, effects = []\<rparr>"

definition loggedOutCycle :: cycle where
  "loggedOutCycle =
     \<lparr>stopAtTop = False, connectThrows = False, uptimeMs = 5000,
      raceResult = Closed \<lparr>status = Some 401, isLoggedOut = True\<rparr>,
      stopAfterRace = False, sleepRejects = False\<rparr>"

definition droppedCycle :: cycle where
  "droppedCycle =
     \<lparr>stopAtTop = False, connectThrows = False, uptimeMs = 5000,
      raceResult = Closed \<lparr>status = Some 408, isLoggedOut = False\<rparr>,
      stopAfterRace = False, sleepRejects = False\<rparr>"

definition isSleep :: "loop_event \<Rightarrow> bool" where
  "isSleep ev = (case ev of Sleep d \<Rightarrow> True | _ \<Rightarrow> False)"

definition isConnect :: "loop_event \<Rightarrow> bool" where
  "isConnect ev = (case ev of Connect \<Rightarrow> True | _ \<Rightarrow> False)"

text \<open>A resolver that, as an agent invocation does, refreshes the session of the sender
  before it answers with the heartbeat token.\<close>

definition touchingResolver :: "request \<Rightarrow> session_store \<Rightarrow> resolved \<times> session_store" where
  "touchingResolver req st =
     (OneReply \<lparr>payloadText = Some HEARTBEAT_TOKEN, mediaUrl = None, mediaUrls = None\<rparr>,
      AList.update (From req) \<lparr>sessionId = js ''s1'', updatedAt = 9000\<rparr> st)"

text \<open>A resolver that refreshes the session and answers with an empty text.\<close>

definition touchingSilentResolver :: "request \<Rightarrow> session_store \<Rightarrow> resolved \<times> session_store" where
  "touchingSilentResolver req st =
     (OneReply \<lparr>payloadText = Some [], mediaUrl = None, mediaUrls = None\<rparr>,
      AList.update (From req) \<lparr>sessionId = js ''s1'', updatedAt = 9000\<rparr> st)"

text \<open>The reply text and the combined body of the \<open>n\<close>-th exchange of a run in which every
  exchange has a text and a body of its own.\<close>

definition replyNo :: "nat \<Rightarrow> jsstring" where
  "replyNo n = [0x0072, of_nat n]"

definition bodyNo :: "nat \<Rightarrow> jsstring" where
  "bodyNo n = [0x0062, of_nat n]"

section \<open>Properties of outbound delivery\<close>

lemma take_dotRun: "take (length (dotRun s)) s = dotRun s"
proof -
  let ?k = "length (takeWhile (\<lambda>x. \<not> isLineTerminator x) s)"
  have p: "takeWhile (\<lambda>x. \<not> isLineTerminator x) s = take ?k s"
    by (rule takeWhile_eq_take)
  have k: "?k \<le> length s"
    by (rule length_takeWhile_le)
  then have "dotRun s = take (min WEB_TEXT_LIMIT ?k) s"
    unfolding dotRun_def by (subst p) (simp add: min.commute)
  moreover have "length (take (min WEB_TEXT_LIMIT ?k) s) = min WEB_TEXT_LIMIT ?k"
    using k by simp
  ultimately show ?thesis by simp
qed

lemma filter_dotRun: "filter (\<lambda>x. \<not> isLineTerminator x) (dotRun s) = dotRun s"
  unfolding dotRun_def
  by (rule filter_id_conv[THEN iffD2]) (auto dest: in_set_takeD set_takeWhileD)

text \<open>The chunks, put together again, are the text without its line terminators.\<close>

lemma concat_matchChunks: "concat (matchChunks s) = filter (\<lambda>x. \<not> isLineTerminator x) s"
proof (induction s rule: matchChunks.induct)
  case 1
  show ?case by simp
next
  case (2 c cs)
  show ?case
  proof (cases "isLineTerminator c")
    case True
    with 2 show ?thesis by simp
  next
    case False
    let ?s = "c # cs"
    let ?r = "dotRun ?s"
    let ?keep = "filter (\<lambda>x. \<not> isLineTerminator x)"
    have "?keep ?s = ?keep (take (length ?r) ?s) @ ?keep (drop (length ?r) ?s)"
      by (metis append_take_drop_id filter_append)
    then have "?keep ?s = ?r @ ?keep (drop (length ?r) ?s)"
      by (simp only: take_dotRun filter_dotRun)
    moreover have "concat (matchChunks ?s) = ?r @ concat (matchChunks (drop (length ?r) ?s))"
      using False by simp
    ultimately show ?thesis using 2(2)[OF False] by simp
  qed
qed

lemma matchChunks_bounds:
  "ch \<in> set (matchChunks s) \<Longrightarrow>
     0 < length ch \<and> length ch \<le> WEB_TEXT_LIMIT \<and> (\<forall>x\<in>set ch. \<not> isLineTerminator x)"
proof (induction s rule: matchChunks.induct)
  case 1
  then show ?case by simp
next
  case (2 c cs)
  show ?case
  proof (cases "isLineTerminator c")
    case True
    with 2 show ?thesis by simp
  next
    case False
    let ?r = "dotRun (c # cs)"
    have r: "0 < length ?r \<and> length ?r \<le> WEB_TEXT_LIMIT \<and> (\<forall>x\<in>set ?r. \<not> isLineTerminator x)"
      using False by (auto simp: dotRun_def WEB_TEXT_LIMIT_def dest: in_set_takeD set_takeWhileD)
    from 2(3) False have "ch = ?r \<or> ch \<in> set (matchChunks (drop (length ?r) (c # cs)))"
      by simp
    then show ?thesis using r 2(2)[OF False] by auto
  qed
qed

text \<open>A text without line terminators is preserved by the split.\<close>

lemma concat_matchChunks_one_line:
  "\<forall>x\<in>set s. \<not> isLineTerminator x \<Longrightarrow> concat (matchChunks s) = s"
  by (simp add: concat_matchChunks)

text \<open>Such a text is cut at the size boundary only: the first chunk is its first
  \<open>WEB_TEXT_LIMIT\<close> code units, and the rest is split in the same way.\<close>

lemma dotRun_one_line:
  "\<forall>x\<in>set s. \<not> isLineTerminator x \<Longrightarrow> dotRun s = take WEB_TEXT_LIMIT s"
  by (simp add: dotRun_def takeWhile_eq_all_conv[THEN iffD2])

lemma matchChunks_one_line:
  assumes "\<forall>x\<in>set s. \<not> isLineTerminator x" and "s \<noteq> []"
  shows "matchChunks s = take WEB_TEXT_LIMIT s # matchChunks (drop WEB_TEXT_LIMIT s)"
proof (cases s)
  case Nil
  with assms(2) show ?thesis by simp
next
  case (Cons c cs)
  have c: "\<not> isLineTerminator c"
    using assms(1) Cons by simp
  have run: "dotRun (c # cs) = take WEB_TEXT_LIMIT (c # cs)"
    using dotRun_one_line[OF assms(1)] Cons by simp
  have "drop (length (take WEB_TEXT_LIMIT (c # cs))) (c # cs) = drop WEB_TEXT_LIMIT (c # cs)"
    by (cases "WEB_TEXT_LIMIT \<le> length (c # cs)") (simp_all add: min_def)
  then show ?thesis
    unfolding Cons using c by (simp only: matchChunks.simps run if_False)
qed

lemma replyEach_all_sent:
  "\<forall>c\<in>set chunks. \<not> replyThrows tr c \<Longrightarrow> replyEach tr chunks = (map Reply chunks, False)"
  by (induction chunks) simp_all

text \<open>With no media, every chunk is sent, in order, as long as no reply throws.\<close>

lemma deliverWebReply_text_only:
  assumes "mediaList p = []" and "\<forall>c\<in>set (textChunks (payloadText p)). \<not> replyThrows tr c"
  shows "deliverWebReply tr p = (map Reply (textChunks (payloadText p)), False)"
proof (cases "textChunks (payloadText p) = []")
  case True
  with assms show ?thesis by (simp add: deliverWebReply_def)
next
  case False
  with assms show ?thesis by (simp add: deliverWebReply_def replyEach_all_sent)
qed

text \<open>
  C5 (the split preserves the content: the chunks, concatenated in order, are the original
  text, and the text is split on the size boundary only). The code splits with the regular
  expression \<open>.{1,4000}\<close>, whose \<open>.\<close> matches no line terminator: the two-line text \<open>a\nb\<close>
  (three code units, far below the limit) comes out as the two chunks \<open>a\<close> and \<open>b\<close>, which a
  text-only delivery sends as two messages, and the line feed is in neither.
\<close>

theorem C5_line_terminator_lost:
  "textChunks (Some (js ''a'' @ [0x000A] @ js ''b'')) = [js ''a'', js ''b'']
   \<and> concat (textChunks (Some (js ''a'' @ [0x000A] @ js ''b''))) \<noteq> js ''a'' @ [0x000A] @ js ''b''
   \<and> deliverWebReply
        \<lparr>loadWebMedia = (\<lambda>u. None), sendMediaThrows = (\<lambda>u. False),
         replyThrows = (\<lambda>t. False), senderThrows = (\<lambda>t m. False)\<rparr>
        \<lparr>payloadText = Some (js ''a'' @ [0x000A] @ js ''b''), mediaUrl = None, mediaUrls = None\<rparr>
      = ([Reply (js ''a''), Reply (js ''b'')], False)"
  by (simp add: deliverWebReply_def textChunks_def mediaList_def truthy_def js_def dotRun_def
      isLineTerminator_def WEB_TEXT_LIMIT_def)

text \<open>
  C4 (when sending the first media item throws, the first text chunk is sent as plain text
  instead, so that the text is not lost). The caption is shifted off the remaining text
  before \<open>msg.sendMedia\<close> is called, so when that call throws the \<open>catch\<close> block no longer
  finds the first chunk. For the text \<open>hello world\<close> with the one media item \<open>a.png\<close>, loaded
  successfully, the delivery logs the failure, returns without throwing, and has sent
  nothing at all. For a text of two chunks, it is the second chunk that is sent as plain
  text, and the first is lost.
\<close>

theorem C4_text_lost_when_sendMedia_throws:
  "deliverWebReply
     \<lparr>loadWebMedia = (\<lambda>u. Some KindImage), sendMediaThrows = (\<lambda>u. True),
      replyThrows = (\<lambda>t. False), senderThrows = (\<lambda>t m. False)\<rparr>
     \<lparr>payloadText = Some (js ''hello world''), mediaUrl = None, mediaUrls = Some [js ''a.png'']\<rparr>
   = ([MediaFailed (js ''a.png'')], False)
   \<and> deliverWebReply
     \<lparr>loadWebMedia = (\<lambda>u. Some KindImage), sendMediaThrows = (\<lambda>u. True),
      replyThrows = (\<lambda>t. False), senderThrows = (\<lambda>t m. False)\<rparr>
     \<lparr>payloadText = Some (js ''one'' @ [0x000A] @ js ''two''), mediaUrl = None,
      mediaUrls = Some [js ''a.png'']\<rparr>
   = ([MediaFailed (js ''a.png''), MediaSkipped, Reply (js ''two'')], False)"
  by (simp add: deliverWebReply_def textChunks_def mediaList_def tryMedia_def shiftCaption_def
      andThen_def js_def dotRun_def isLineTerminator_def WEB_TEXT_LIMIT_def)

text \<open>When it is \<open>loadWebMedia\<close> that throws for the first item, the caption has not been
  shifted yet and the fallback does send the first chunk.\<close>

lemma deliverWebReply_load_failure_falls_back:
  "deliverWebReply
     \<lparr>loadWebMedia = (\<lambda>u. None), sendMediaThrows = (\<lambda>u. False),
      replyThrows = (\<lambda>t. False), senderThrows = (\<lambda>t m. False)\<rparr>
     \<lparr>payloadText = Some (js ''hello world''), mediaUrl = None, mediaUrls = Some [js ''a.png'']\<rparr>
   = ([MediaFailed (js ''a.png''), MediaSkipped, Reply (js ''hello world'')], False)"
  by (simp add: deliverWebReply_def textChunks_def mediaList_def tryMedia_def shiftCaption_def
      andThen_def js_def dotRun_def isLineTerminator_def WEB_TEXT_LIMIT_def)

section \<open>Properties of the echo guard\<close>


lemma setAdd_member: "x \<in> set (setAdd x xs)"
  by (simp add: setAdd_def)

lemma setAdd_length: "length (setAdd x xs) \<le> Suc (length xs)"
  by (simp add: setAdd_def)

lemma setAdd_set: "set (setAdd x xs) = insert x (set xs)"
  by (auto simp: setAdd_def)

lemma setAdd_distinct: "distinct xs \<Longrightarrow> distinct (setAdd x xs)"
  by (simp add: setAdd_def)

lemma evictOldest_below: "length xs \<le> MAX_RECENT_MESSAGES \<Longrightarrow> evictOldest xs = xs"
  by (simp add: evictOldest_def)

text \<open>A registration puts the text into the guard when the guard has room for it.\<close>

lemma rememberIpc_registers:
  "t \<noteq> [] \<Longrightarrow> length xs < MAX_RECENT_MESSAGES \<Longrightarrow> t \<in> set (rememberIpc t xs)"
  using setAdd_length[of t xs] by (simp add: rememberIpc_def evictOldest_below setAdd_member)

lemma rememberReply_registers:
  assumes "Suc (length xs) < MAX_RECENT_MESSAGES"
  shows "t \<in> set (rememberReply t c xs)"
proof -
  have "length (setAdd c (setAdd t xs)) \<le> MAX_RECENT_MESSAGES"
    using setAdd_length[of c "setAdd t xs"] setAdd_length[of t xs] assms by simp
  then show ?thesis
    by (simp add: rememberReply_def evictOldest_below setAdd_set)
qed



text \<open>The IPC registration keeps the guard within its capacity (as long as the guard holds
  no empty string, which that path never adds).\<close>

lemma rememberIpc_bounded:
  assumes "length xs \<le> MAX_RECENT_MESSAGES" and "distinct xs" and "[] \<notin> set xs"
  shows "length (rememberIpc m xs) \<le> MAX_RECENT_MESSAGES \<and> distinct (rememberIpc m xs)
         \<and> [] \<notin> set (rememberIpc m xs)"
proof (cases "m = [] \<or> m \<in> set xs")
  case True
  with assms show ?thesis
    by (auto simp: rememberIpc_def setAdd_def evictOldest_below)
next
  case False
  then have add: "setAdd m xs = xs @ [m]"
    by (simp add: setAdd_def)
  show ?thesis
  proof (cases xs)
    case Nil
    with False add show ?thesis
      by (simp add: rememberIpc_def evictOldest_def MAX_RECENT_MESSAGES_def)
  next
    case (Cons x rest)
    with assms False add show ?thesis
      by (auto simp: rememberIpc_def evictOldest_def setDelete_def)
  qed
qed

text \<open>The registration after a delivery adds two entries and evicts one: once the guard is
  full, every exchange with a new reply text and a new combined body makes it one larger.\<close>

lemma rememberReply_grows:
  assumes "MAX_RECENT_MESSAGES \<le> length xs" and "distinct xs" and "[] \<notin> set xs"
    and "t \<notin> set xs" and "c \<notin> set xs" and "t \<noteq> c"
  shows "length (rememberReply t c xs) = Suc (length xs)"
proof (cases xs)
  case Nil
  with assms(1) show ?thesis by (simp add: MAX_RECENT_MESSAGES_def)
next
  case (Cons x rest)
  have "setAdd c (setAdd t xs) = xs @ [t, c]"
    using assms(4,5,6) by (simp add: setAdd_def)
  then have add: "setAdd c (setAdd t (x # rest)) = x # rest @ [t, c]"
    using Cons by simp
  have "x \<noteq> []" "x \<noteq> t" "x \<noteq> c" "x \<notin> set rest"
    using Cons assms(2,3,4,5) by auto
  then show ?thesis
    using assms(1) unfolding Cons rememberReply_def add evictOldest_def setDelete_def
    by simp
qed


text \<open>
  C10 (the echo guard never holds more than 100 entries). The registration in \<open>processBatch\<close>
  adds the reply text and the combined body and then evicts at most one entry. Starting from
  the empty guard, 51 exchanges, each with a reply text and a combined body of its own, leave
  101 entries in the guard.
\<close>

theorem C10_guard_exceeds_capacity:
  "length (fold (\<lambda>n. rememberReply (replyNo n) (bodyNo n)) [0..<51] []) = 101"
  by code_simp

section \<open>Properties of the inbound batcher\<close>













section \<open>Echo suppression, from the send to the second echo\<close>






section \<open>Properties of sessions and heartbeats\<close>

text \<open>
  C9, as amended: freshness is computed when the snapshot is read, from the entry as it is
  stored: the snapshot's entry is the stored one, and the session is fresh exactly when
  \<open>now - updatedAt\<close> is at most the effective idle minutes times 60000. The effective idle
  minutes are the configured \<open>idleMinutes\<close> (for a heartbeat snapshot the configured
  \<open>heartbeatIdleMinutes\<close>, when there is one; the default when nothing is configured), but
  never less than 1. With the effective value \<open>m\<close>, an entry updated at \<open>now\<close> is fresh and one
  updated at \<open>now - (m + 1) * 60000\<close> is stale. \<open>getSessionSnapshot\<close> has no store among its
  results: it loads the store and never saves it.
\<close>

theorem C9_freshness_read_time:
  assumes "entry (getSessionSnapshot e now sender isHeartbeat st) = Some en"
  shows "fresh (getSessionSnapshot e now sender isHeartbeat st)
           = (now - updatedAt en \<le> effectiveIdleMinutes e isHeartbeat * 60000)
         \<and> map_of st (key (getSessionSnapshot e now sender isHeartbeat st)) = Some en
         \<and> 1 \<le> effectiveIdleMinutes e isHeartbeat
         \<and> effectiveIdleMinutes e False
             = max (case idleMinutes (cfg e) of Some m \<Rightarrow> m | None \<Rightarrow> DEFAULT_IDLE_MINUTES e) 1
         \<and> effectiveIdleMinutes e True
             = max (case heartbeatIdleMinutes (cfg e) of
                      Some h \<Rightarrow> h
                    | None \<Rightarrow> (case idleMinutes (cfg e) of
                                 Some m \<Rightarrow> m
                               | None \<Rightarrow> DEFAULT_IDLE_MINUTES e)) 1
         \<and> (updatedAt en = now \<longrightarrow> fresh (getSessionSnapshot e now sender isHeartbeat st))
         \<and> (updatedAt en = now - (effectiveIdleMinutes e isHeartbeat + 1) * 60000
              \<longrightarrow> \<not> fresh (getSessionSnapshot e now sender isHeartbeat st))"
proof -
  have idle: "1 \<le> effectiveIdleMinutes e isHeartbeat"
    by (simp add: effectiveIdleMinutes_def)
  have f: "fresh (getSessionSnapshot e now sender isHeartbeat st)
           = (now - updatedAt en \<le> effectiveIdleMinutes e isHeartbeat * 60000)"
    using assms by (simp add: getSessionSnapshot_def Let_def)
  have stored: "map_of st (key (getSessionSnapshot e now sender isHeartbeat st)) = Some en"
    using assms by (simp add: getSessionSnapshot_def Let_def)
  have plain: "effectiveIdleMinutes e False
             = max (case idleMinutes (cfg e) of Some m \<Rightarrow> m | None \<Rightarrow> DEFAULT_IDLE_MINUTES e) 1"
    by (simp add: effectiveIdleMinutes_def)
  have beat: "effectiveIdleMinutes e True
             = max (case heartbeatIdleMinutes (cfg e) of
                      Some h \<Rightarrow> h
                    | None \<Rightarrow> (case idleMinutes (cfg e) of
                                 Some m \<Rightarrow> m
                               | None \<Rightarrow> DEFAULT_IDLE_MINUTES e)) 1"
    by (simp add: effectiveIdleMinutes_def split: option.splits)
  have now: "updatedAt en = now \<longrightarrow> fresh (getSessionSnapshot e now sender isHeartbeat st)"
    unfolding f using idle by simp
  have old: "updatedAt en = now - (effectiveIdleMinutes e isHeartbeat + 1) * 60000
              \<longrightarrow> \<not> fresh (getSessionSnapshot e now sender isHeartbeat st)"
    unfolding f by simp
  show ?thesis
    using f stored idle plain beat now old by blast
qed

theorem C9_freshness_read_time_witness:
  "entry (getSessionSnapshot plainEnv 61000 (js ''+15550001'') False (store idleConnector))
     = Some \<lparr>sessionId = js ''s1'', updatedAt = 1000\<rparr>
   \<and> effectiveIdleMinutes plainEnv False = 60
   \<and> fresh (getSessionSnapshot plainEnv 61000 (js ''+15550001'') False (store idleConnector))"
  using C9_freshness_read_time[of plainEnv 61000 "js ''+15550001''" False "store idleConnector"
      "\<lparr>sessionId = js ''s1'', updatedAt = 1000\<rparr>"]
  by (simp add: getSessionSnapshot_def effectiveIdleMinutes_def plainEnv_def plainConfig_def js_def
      idleConnector_def)

text \<open>C9 as the specification states it fails for a configured \<open>idleMinutes\<close> below 1: with
  \<open>idleMinutes = 0\<close>, an entry updated at \<open>now - (0 + 1) * 60000\<close> is reported fresh, although
  \<open>now - updatedAt\<close> is greater than \<open>0 * 60000\<close>.\<close>

theorem C9_counterexample:
  "fresh (getSessionSnapshot (plainEnv\<lparr>cfg := plainConfig\<lparr>idleMinutes := Some 0\<rparr>\<rparr>) 61000
            (js ''+15550001'') False
            [(js ''+15550001'', \<lparr>sessionId = js ''s1'', updatedAt = 61000 - (0 + 1) * 60000\<rparr>)])
   \<and> \<not> (61000 - (61000 - (0 + 1) * 60000) \<le> (0::int) * 60000)"
  by (simp add: getSessionSnapshot_def effectiveIdleMinutes_def plainEnv_def plainConfig_def js_def)

text \<open>
  C8: a reply-heartbeat tick at which the command queue is not empty does nothing but write
  the skip notice: the resolver is not invoked, nothing is sent, and the session store and
  the rest of the connector state are as before.
\<close>

theorem C8_heartbeat_skipped_when_queued:
  assumes "0 < queued"
  shows "runReplyHeartbeat e now queued w
         = (Returned, w\<lparr>effects := effects w @ [HeartbeatSkipped RequestsInFlight]\<rparr>)"
  using assms by (simp add: runReplyHeartbeat_def emit_def)

theorem C8_heartbeat_skipped_when_queued_witness:
  "(0::nat) < 2
   \<and> runReplyHeartbeat plainEnv 5000 2 (idleConnector\<lparr>lastInboundMsg := Some helloMsg\<rparr>)
       = (Returned, idleConnector\<lparr>lastInboundMsg := Some helloMsg,
                                   effects := [HeartbeatSkipped RequestsInFlight]\<rparr>)"
  using C8_heartbeat_skipped_when_queued[of 2 plainEnv 5000 "idleConnector\<lparr>lastInboundMsg := Some helloMsg\<rparr>"]
  by (simp add: idleConnector_def)

text \<open>The same tick with an empty queue does resolve the synthetic prompt.\<close>

lemma runReplyHeartbeat_runs_when_idle:
  "effects (snd (runReplyHeartbeat plainEnv 5000 0 (idleConnector\<lparr>lastInboundMsg := Some helloMsg\<rparr>)))
   = [Invoke (heartbeatRequest (js ''+15550001'') (js ''+15550002'') (Some (js ''s1''))),
      HeartbeatSkipped HeartbeatTokenReply]"
  by (simp add: runReplyHeartbeat_def resolveReplyHeartbeatMinutes_def plainEnv_def plainConfig_def
      idleConnector_def helloMsg_def tokenResolver_def getSessionSnapshot_def effectiveIdleMinutes_def
      emit_def truthy_def isEmptyReply_def hasMedia_def stripHeartbeatToken_def trim_def
      isTrimmed_def HEARTBEAT_TOKEN_def js_def Let_def)

lemma replaceAllEmpty_token: "replaceAllEmpty HEARTBEAT_TOKEN HEARTBEAT_TOKEN = []"
  by (simp add: HEARTBEAT_TOKEN_def js_def startsWith_def)

lemma trim_Nil: "trim [] = []"
  by (simp add: trim_def)

text \<open>A truthy reply text is skipped exactly when nothing is left of it after trimming,
  removing every occurrence of the token and trimming again.\<close>

lemma shouldSkip_iff:
  "truthy (Some t) \<Longrightarrow>
     shouldSkip (stripHeartbeatToken (Some t)) \<longleftrightarrow> trim (replaceAllEmpty HEARTBEAT_TOKEN (trim t)) = []"
  by (auto simp: stripHeartbeatToken_def Let_def replaceAllEmpty_token trim_Nil)

lemma map_of_restoreUpdatedAt:
  "entry snap = Some previous \<Longrightarrow>
   map_of (restoreUpdatedAt snap st) k =
     (if k = key snap then map_option (\<lambda>cur. cur\<lparr>updatedAt := updatedAt previous\<rparr>) (map_of st k)
      else map_of st k)"
  by (auto simp: restoreUpdatedAt_def update_conv' split: option.splits)

text \<open>Without a session-id override, \<open>runWebHeartbeatOnce\<close> does what it sets out to do. Take
  a recipient whose session key has an entry in the store, and a reply with a non-empty text
  that, once trimmed, is the token or is empty after every occurrence of the token is removed
  and the rest trimmed, and with no media. The run returns without sending anything (the
  resolver invocation and the skip notice are its only effects), and the store is the one
  the resolver left, with the entry under the session key, if the resolver left one, carrying
  the \<open>updatedAt\<close> it had before the run.\<close>

lemma runWebHeartbeatOnce_restores_updatedAt:
  assumes "\<not> truthy (optSessionId opts)" and "\<not> truthy (overrideBody opts)"
    and "snap = getSessionSnapshot e now (optTo opts) True (store w)"
    and "entry snap = Some previous"
    and "req = heartbeatRequest (optTo opts) (optTo opts)
                 (case optSessionId opts of Some s \<Rightarrow> Some s | None \<Rightarrow> Some (sessionId previous))"
    and "replyResolver e req (store w) = (OneReply p, st')"
    and "payloadText p = Some t" and "t \<noteq> []" and "\<not> hasMedia p"
    and "trim t = HEARTBEAT_TOKEN \<or> trim (replaceAllEmpty HEARTBEAT_TOKEN (trim t)) = []"
  shows "runWebHeartbeatOnce e now opts w
           = (Returned, w\<lparr>store := restoreUpdatedAt snap st',
                          effects := effects w @ [Invoke req, HeartbeatSkipped HeartbeatTokenReply]\<rparr>)
         \<and> map_of (store w) (key snap) = Some previous
         \<and> map_of (restoreUpdatedAt snap st') (key snap)
             = map_option (\<lambda>cur. cur\<lparr>updatedAt := updatedAt previous\<rparr>) (map_of st' (key snap))"
proof -
  have skip: "shouldSkip (stripHeartbeatToken (payloadText p))"
    using assms(7,8,10) shouldSkip_iff[of t]
    by (auto simp: truthy_def replaceAllEmpty_token trim_Nil)
  have notempty: "\<not> isEmptyReply (OneReply p)"
    using assms(7,8) by (simp add: isEmptyReply_def truthy_def)
  have stored: "map_of (store w) (key snap) = Some previous"
    using assms(3,4) by (simp add: getSessionSnapshot_def Let_def)
  have snap_entry: "entry (getSessionSnapshot e now (optTo opts) True (store w)) = Some previous"
    using assms(3,4) by simp
  have req: "heartbeatRequest (optTo opts) (optTo opts)
               (case optSessionId opts of
                  Some s \<Rightarrow> Some s
                | None \<Rightarrow> map_option sessionId (entry (getSessionSnapshot e now (optTo opts) True (store w))))
             = req"
    unfolding assms(5) snap_entry by (cases "optSessionId opts") simp_all
  have run: "runWebHeartbeatOnce e now opts w
           = (Returned, w\<lparr>store := restoreUpdatedAt snap st',
                          effects := effects w @ [Invoke req, HeartbeatSkipped HeartbeatTokenReply]\<rparr>)"
    using assms(1,2,9) skip notempty
    unfolding runWebHeartbeatOnce_def Let_def
    by (simp add: req assms(6) emit_def assms(3))
  show ?thesis
    using run stored map_of_restoreUpdatedAt[OF assms(4)] by simp
qed

text \<open>An instance: the resolver refreshes the entry to 9000, and the run puts 1000 back.\<close>

lemma runWebHeartbeatOnce_restores_updatedAt_instance:
  "runWebHeartbeatOnce (plainEnv\<lparr>replyResolver := touchingResolver\<rparr>) 5000
     \<lparr>optTo = js ''+15550001'', optSessionId = None, overrideBody = None, dryRun = False\<rparr>
     idleConnector
   = (Returned,
      idleConnector\<lparr>store := [(js ''+15550001'', \<lparr>sessionId = js ''s1'', updatedAt = 1000\<rparr>)],
        effects := [Invoke (heartbeatRequest (js ''+15550001'') (js ''+15550001'') (Some (js ''s1''))),
                    HeartbeatSkipped HeartbeatTokenReply]\<rparr>)"
  using runWebHeartbeatOnce_restores_updatedAt[of
      "\<lparr>optTo = js ''+15550001'', optSessionId = None, overrideBody = None, dryRun = False\<rparr>"
      "getSessionSnapshot (plainEnv\<lparr>replyResolver := touchingResolver\<rparr>) 5000 (js ''+15550001'') True
         (store idleConnector)"
      "plainEnv\<lparr>replyResolver := touchingResolver\<rparr>" 5000 idleConnector
      "\<lparr>sessionId = js ''s1'', updatedAt = 1000\<rparr>"
      "heartbeatRequest (js ''+15550001'') (js ''+15550001'') (Some (js ''s1''))"
      "\<lparr>payloadText = Some HEARTBEAT_TOKEN, mediaUrl = None, mediaUrls = None\<rparr>"
      "[(js ''+15550001'', \<lparr>sessionId = js ''s1'', updatedAt = 9000\<rparr>)]"
      HEARTBEAT_TOKEN]
  by (simp add: plainEnv_def plainConfig_def idleConnector_def touchingResolver_def
      getSessionSnapshot_def effectiveIdleMinutes_def truthy_def hasMedia_def heartbeatRequest_def
      restoreUpdatedAt_def trim_def isTrimmed_def HEARTBEAT_TOKEN_def HEARTBEAT_PROMPT_def js_def)

text \<open>A reply with an empty text and no media takes the earlier empty-reply return of
  \<open>runWebHeartbeatOnce\<close>, which writes nothing back.\<close>

lemma runWebHeartbeatOnce_empty_reply_no_write_back:
  "runWebHeartbeatOnce (plainEnv\<lparr>replyResolver := touchingSilentResolver\<rparr>) 5000
     \<lparr>optTo = js ''+15550001'', optSessionId = None, overrideBody = None, dryRun = False\<rparr>
     idleConnector
   = (Returned,
      idleConnector\<lparr>store := [(js ''+15550001'', \<lparr>sessionId = js ''s1'', updatedAt = 9000\<rparr>)],
        effects := [Invoke (heartbeatRequest (js ''+15550001'') (js ''+15550001'') (Some (js ''s1''))),
                    HeartbeatSkipped EmptyReply]\<rparr>)"
  by (simp add: runWebHeartbeatOnce_def plainEnv_def plainConfig_def idleConnector_def
      touchingSilentResolver_def getSessionSnapshot_def effectiveIdleMinutes_def heartbeatRequest_def
      emit_def truthy_def isEmptyReply_def hasMedia_def js_def Let_def)

text \<open>
  C3 (a heartbeat whose reply is the token alone sends nothing and leaves the session's
  \<open>updatedAt\<close> as it was before the heartbeat). The store holds one session, last updated at
  1000, and the reply is the token exactly. Nothing is sent in any of the three runs, but:
  the connector's tick that has seen no inbound message yet passes the stored session id to
  \<open>runWebHeartbeatOnce\<close>, which rewrites the entry with \<open>updatedAt = now\<close> before it takes the
  snapshot it later restores from, so the entry is left at 5000; a direct call with a session
  id does the same; and the tick for a known last inbound message never writes anything back,
  so a refresh made during the invocation (to 9000 here) stays.
\<close>

theorem C3_silent_heartbeat_refreshes_session:
  "map_of (store idleConnector) (js ''+15550001'') = Some \<lparr>sessionId = js ''s1'', updatedAt = 1000\<rparr>
   \<and> runReplyHeartbeat plainEnv 5000 0 idleConnector
     = (Returned,
        idleConnector\<lparr>store := [(js ''+15550001'', \<lparr>sessionId = js ''s1'', updatedAt = 5000\<rparr>)],
          effects := [Invoke (heartbeatRequest (js ''+15550001'') (js ''+15550001'') (Some (js ''s1''))),
                      HeartbeatSkipped HeartbeatTokenReply]\<rparr>)
   \<and> runWebHeartbeatOnce plainEnv 5000
       \<lparr>optTo = js ''+15550001'', optSessionId = Some (js ''s1''), overrideBody = None, dryRun = False\<rparr>
       idleConnector
     = (Returned,
        idleConnector\<lparr>store := [(js ''+15550001'', \<lparr>sessionId = js ''s1'', updatedAt = 5000\<rparr>)],
          effects := [Invoke (heartbeatRequest (js ''+15550001'') (js ''+15550001'') (Some (js ''s1''))),
                      HeartbeatSkipped HeartbeatTokenReply]\<rparr>)
   \<and> runReplyHeartbeat (plainEnv\<lparr>replyResolver := touchingResolver\<rparr>) 5000 0
       (idleConnector\<lparr>lastInboundMsg := Some helloMsg\<rparr>)
     = (Returned,
        idleConnector\<lparr>lastInboundMsg := Some helloMsg,
          store := [(js ''+15550001'', \<lparr>sessionId = js ''s1'', updatedAt = 9000\<rparr>)],
          effects := [Invoke (heartbeatRequest (js ''+15550001'') (js ''+15550002'') (Some (js ''s1''))),
                      HeartbeatSkipped HeartbeatTokenReply]\<rparr>)"
  by (simp add: runReplyHeartbeat_def resolveReplyHeartbeatMinutes_def getFallbackRecipient_def
      runWebHeartbeatOnce_def plainEnv_def plainConfig_def idleConnector_def helloMsg_def
      tokenResolver_def touchingResolver_def getSessionSnapshot_def effectiveIdleMinutes_def
      heartbeatRequest_def emit_def truthy_def isEmptyReply_def hasMedia_def stripHeartbeatToken_def
      trim_def isTrimmed_def HEARTBEAT_TOKEN_def js_def restoreUpdatedAt_def Let_def)

section \<open>Properties of the reconnect loop\<close>

text \<open>
  C6, as amended: when the connection closes and the channel reports it as logged out, the
  loop is left at once, whatever the environment would have done next: no further
  connection is made and no backoff sleep is started. The re-authentication notice is
  written unless a stop had already been requested (abort signal or SIGINT) when the close
  is handled; then the loop is left without a notice. The pass is one in which the loop got
  to wait for the close: no stop at its top, the connection made, and \<open>keepAlive\<close> set.
\<close>

theorem C6_logged_out_stops:
  assumes "keepAlive" and "\<not> stopAtTop c" and "\<not> connectThrows c"
    and "raceResult c = Closed r" and "isLoggedOut r"
  shows "monitorLoop policy computeBackoff keepAlive heartbeatSeconds attempts (c # rest)
         = (if stopAfterRace c then [Connect, CloseListener]
            else [Connect, Notice LoggedOutNotice, CloseListener], Stopped)"
  using assms by simp

theorem C6_logged_out_stops_witness:
  "\<not> stopAtTop loggedOutCycle \<and> \<not> connectThrows loggedOutCycle
   \<and> raceResult loggedOutCycle = Closed \<lparr>status = Some 401, isLoggedOut = True\<rparr>
   \<and> monitorLoop \<lparr>maxAttempts = 0\<rparr> (\<lambda>p n. 1000 * n) True 60 0 [loggedOutCycle, droppedCycle]
       = ([Connect, Notice LoggedOutNotice, CloseListener], Stopped)"
  using C6_logged_out_stops[of True loggedOutCycle "\<lparr>status = Some 401, isLoggedOut = True\<rparr>"
      "\<lparr>maxAttempts = 0\<rparr>" "\<lambda>p n. 1000 * n" 60 0 "[droppedCycle]"]
  by (simp add: loggedOutCycle_def)

text \<open>C6 as the specification states it fails when a stop was requested before the
  logged-out close is handled: the loop is left without the notice.\<close>

theorem C6_counterexample:
  "monitorLoop \<lparr>maxAttempts = 0\<rparr> (\<lambda>p n. 1000 * n) True 60 0
     [loggedOutCycle\<lparr>stopAfterRace := True\<rparr>] = ([Connect, CloseListener], Stopped)
   \<and> Notice LoggedOutNotice \<notin> set (fst (monitorLoop \<lparr>maxAttempts = 0\<rparr> (\<lambda>p n. 1000 * n) True 60 0
        [loggedOutCycle\<lparr>stopAfterRace := True\<rparr>]))"
  by (simp add: loggedOutCycle_def)

lemma monitorLoop_transient_step:
  assumes "transientCycle c" and "maxAttempts policy \<le> 0"
  shows "monitorLoop policy computeBackoff True heartbeatSeconds attempts (c # rest)
         = followedBy
             [Connect,
              Notice (RetryNotice (case raceResult c of Closed r \<Rightarrow> status r)
                        (Suc (if uptimeMs c > heartbeatSeconds * 1000 then 0 else attempts))
                        (maxAttempts policy)
                        (computeBackoff policy (Suc (if uptimeMs c > heartbeatSeconds * 1000 then 0 else attempts)))),
              CloseListener,
              Sleep (computeBackoff policy (Suc (if uptimeMs c > heartbeatSeconds * 1000 then 0 else attempts)))]
             (monitorLoop policy computeBackoff True heartbeatSeconds
                (Suc (if uptimeMs c > heartbeatSeconds * 1000 then 0 else attempts)) rest)"
  using assms by (auto simp: transientCycle_def Let_def split: race_result.splits if_splits)

text \<open>Without a bound on the attempts, a run of transient closes of any length is retried to
  its end: one connection and one backoff sleep per close, and the loop is still running.\<close>

lemma monitorLoop_unbounded:
  assumes "maxAttempts policy \<le> 0" and "\<forall>c\<in>set cs. transientCycle c"
  shows "snd (monitorLoop policy computeBackoff True heartbeatSeconds attempts cs) = Waiting
         \<and> length (filter isSleep (fst (monitorLoop policy computeBackoff True heartbeatSeconds attempts cs)))
             = length cs
         \<and> length (filter isConnect (fst (monitorLoop policy computeBackoff True heartbeatSeconds attempts cs)))
             = length cs"
  using assms(2)
proof (induction cs arbitrary: attempts)
  case Nil
  show ?case by simp
next
  case (Cons c cs)
  then have c: "transientCycle c" and cs: "\<forall>c\<in>set cs. transientCycle c"
    by simp_all
  show ?case
    unfolding monitorLoop_transient_step[OF c assms(1)]
    using Cons.IH[OF cs] by (simp add: followedBy_def isSleep_def isConnect_def)
qed

text \<open>
  C7, as amended: when the connection closes, the close is not a logged-out one and no stop
  has been requested by then, the attempt counter (set back to 0 first when the connection
  outlived one heartbeat interval) is incremented. If \<open>maxAttempts\<close> is greater than 0 and
  the counter has reached it, the give-up notice is written and the loop is left, with no
  backoff and no further connection. Otherwise the retry notice is written and the loop
  sleeps for the backoff delay of that attempt; it goes on to the next connection unless the
  sleep is cut short by a stop. With \<open>maxAttempts = 0\<close> the give-up branch is never taken: any
  number of transient closes in a row is retried.
\<close>

theorem C7_transient_close_retries:
  assumes "keepAlive" and "\<not> stopAtTop c" and "\<not> connectThrows c" and "\<not> stopAfterRace c"
    and "raceResult c = Closed r" and "\<not> isLoggedOut r"
    and "a = Suc (if uptimeMs c > heartbeatSeconds * 1000 then 0 else attempts)"
  shows "monitorLoop policy computeBackoff keepAlive heartbeatSeconds attempts (c # rest)
         = (if maxAttempts policy > 0 \<and> int a \<ge> maxAttempts policy
            then ([Connect, Notice (MaxRetriesNotice (status r) (maxAttempts policy)), CloseListener],
                  Stopped)
            else followedBy
                   [Connect,
                    Notice (RetryNotice (status r) a (maxAttempts policy) (computeBackoff policy a)),
                    CloseListener, Sleep (computeBackoff policy a)]
                   (if sleepRejects c then ([], Stopped)
                    else monitorLoop policy computeBackoff keepAlive heartbeatSeconds a rest))
         \<and> (maxAttempts policy = 0 \<longrightarrow>
              (\<forall>cs k. (\<forall>x\<in>set cs. transientCycle x) \<longrightarrow>
                 snd (monitorLoop policy computeBackoff keepAlive heartbeatSeconds k cs) = Waiting
                 \<and> length (filter isSleep
                      (fst (monitorLoop policy computeBackoff keepAlive heartbeatSeconds k cs)))
                     = length cs))"
proof -
  have unbounded: "maxAttempts policy = 0 \<longrightarrow>
      (\<forall>cs k. (\<forall>x\<in>set cs. transientCycle x) \<longrightarrow>
         snd (monitorLoop policy computeBackoff keepAlive heartbeatSeconds k cs) = Waiting
         \<and> length (filter isSleep
              (fst (monitorLoop policy computeBackoff keepAlive heartbeatSeconds k cs)))
             = length cs)"
    using monitorLoop_unbounded[of policy _ computeBackoff heartbeatSeconds] assms(1) by simp
  have step: "monitorLoop policy computeBackoff keepAlive heartbeatSeconds attempts (c # rest)
         = (if maxAttempts policy > 0 \<and> int a \<ge> maxAttempts policy
            then ([Connect, Notice (MaxRetriesNotice (status r) (maxAttempts policy)), CloseListener],
                  Stopped)
            else followedBy
                   [Connect,
                    Notice (RetryNotice (status r) a (maxAttempts policy) (computeBackoff policy a)),
                    CloseListener, Sleep (computeBackoff policy a)]
                   (if sleepRejects c then ([], Stopped)
                    else monitorLoop policy computeBackoff keepAlive heartbeatSeconds a rest))"
    using assms by (simp add: followedBy_def Let_def)
  from step unbounded show ?thesis by (rule conjI)
qed

theorem C7_transient_close_retries_witness:
  "monitorLoop \<lparr>maxAttempts = 2\<rparr> (\<lambda>p n. 1000 * n) True 60 0 [droppedCycle, droppedCycle, droppedCycle]
     = ([Connect, Notice (RetryNotice (Some 408) 1 2 1000), CloseListener, Sleep 1000,
         Connect, Notice (MaxRetriesNotice (Some 408) 2), CloseListener], Stopped)
   \<and> monitorLoop \<lparr>maxAttempts = 0\<rparr> (\<lambda>p n. 1000 * n) True 60 0 [droppedCycle, droppedCycle]
     = ([Connect, Notice (RetryNotice (Some 408) 1 0 1000), CloseListener, Sleep 1000,
         Connect, Notice (RetryNotice (Some 408) 2 0 2000), CloseListener, Sleep 2000], Waiting)"
  using C7_transient_close_retries[of True droppedCycle "\<lparr>status = Some 408, isLoggedOut = False\<rparr>"
      1 60 0 "\<lparr>maxAttempts = 2\<rparr>" "\<lambda>p n. 1000 * n" "[droppedCycle, droppedCycle]"]
    C7_transient_close_retries[of True droppedCycle "\<lparr>status = Some 408, isLoggedOut = False\<rparr>"
      2 60 1 "\<lparr>maxAttempts = 2\<rparr>" "\<lambda>p n. 1000 * n" "[droppedCycle]"]
    C7_transient_close_retries[of True droppedCycle "\<lparr>status = Some 408, isLoggedOut = False\<rparr>"
      1 60 0 "\<lparr>maxAttempts = 0\<rparr>" "\<lambda>p n. 1000 * n" "[droppedCycle]"]
  by (simp add: droppedCycle_def followedBy_def)

text \<open>C7 as the specification states it fails when a stop was requested before the
  transient close is handled: the loop is left with neither a retry nor a give-up notice.\<close>

theorem C7_counterexample:
  "monitorLoop \<lparr>maxAttempts = 3\<rparr> (\<lambda>p n. 1000 * n) True 60 0
     [droppedCycle\<lparr>stopAfterRace := True\<rparr>, droppedCycle] = ([Connect, CloseListener], Stopped)"
  by (simp add: droppedCycle_def)

end
